theory Spec2Isabelle
  imports Complex_Main
begin

section \<open>The churn pipeline notebook\<close>

text \<open>
  The repository is one notebook, \<^verbatim>\<open>2. Pipelines.ipynb\<close>. Its code cells build
  configuration objects of the SageMaker SDK (parameters, steps, one condition, one
  pipeline) and then call the SDK: upload, upsert, start, describe, wait, list_steps.

  The objects are data. Each SDK class the notebook instantiates is a record or a
  datatype constructor with the keyword arguments the notebook passes; each notebook
  variable is a constant of the same name. Values the notebook obtains from the SDK at
  run time (the default bucket, the execution role, the image URI, the S3 URI the SDK
  computes for the evaluation output) are arguments of the constants that use them.
  The session handle \<^verbatim>\<open>sm_session\<close> is not a field of the objects: it is the
  client through which the script of the last sections makes its calls.
\<close>

subsection \<open>Values\<close>

text \<open>
  A Python float literal is recorded by the decimal number that the literal denotes:
  no arithmetic is done on it by the notebook.
\<close>

datatype primitive = PInteger int | PString string | PFloat rat

datatype ptype = TInteger | TString

text \<open>
  \<^verbatim>\<open>ParameterInteger(name, default_value=None)\<close> and
  \<^verbatim>\<open>ParameterString(name, default_value=None)\<close>.
\<close>

datatype parameter =
    ParameterInteger string "int option"
  | ParameterString string "string option"

fun parameter_name :: "parameter \<Rightarrow> string" where
  "parameter_name (ParameterInteger n d) = n"
| "parameter_name (ParameterString n d) = n"

fun parameter_type :: "parameter \<Rightarrow> ptype" where
  "parameter_type (ParameterInteger n d) = TInteger"
| "parameter_type (ParameterString n d) = TString"

fun default_value :: "parameter \<Rightarrow> primitive option" where
  "default_value (ParameterInteger n d) = map_option PInteger d"
| "default_value (ParameterString n d) = map_option PString d"

text \<open>
  \<^verbatim>\<open>step.properties.A.B["k"].C\<close>: a reference to a property of a step's job,
  by the step's name and the path of attribute names and keys.
\<close>

datatype properties = Properties (prop_step: string) (prop_path: "string list")

record property_file =
  pf_name :: string
  pf_output_name :: string
  pf_path :: string

record json_get =
  jg_step_name :: string
  jg_property_file :: property_file
  jg_json_path :: string

text \<open>What the notebook passes where the SDK expects a value.\<close>

datatype pvalue =
    Prim primitive
  | Param parameter
  | Prop properties
  | JsonGet json_get

subsection \<open>Steps\<close>

record processing_input =
  input_name :: "string option"
  pi_source :: pvalue
  pi_destination :: string

record processing_output =
  output_name :: string
  po_source :: string

record cache_config =
  enable_caching :: bool
  expire_after :: "string option"

datatype processor =
    SKLearnProcessor
      (framework_version: string) (sk_instance_type: pvalue) (sk_instance_count: pvalue)
      (sk_role: string)
  | ScriptProcessor
      (sp_image_uri: string) (command: "string list") (sp_instance_type: pvalue)
      (sp_instance_count: pvalue) (sp_base_job_name: string) (sp_role: string)

record processing_step =
  ps_name :: string
  ps_processor :: processor
  ps_inputs :: "processing_input list"
  ps_outputs :: "processing_output list"
  ps_code :: string
  ps_cache_config :: "cache_config option"
  ps_property_files :: "property_file list"

record estimator =
  est_image_uri :: string
  est_instance_type :: pvalue
  est_instance_count :: int
  est_output_path :: string
  est_base_job_name :: string
  est_role :: string
  hyperparameters :: "(string \<times> pvalue) list"

record training_input =
  s3_data :: pvalue
  ti_content_type :: string

record training_step =
  ts_name :: string
  ts_estimator :: estimator
  ts_inputs :: "(string \<times> training_input) list"
  ts_cache_config :: "cache_config option"

record metrics_source =
  ms_s3_uri :: string
  ms_content_type :: string

record model_metrics =
  model_statistics :: metrics_source

record register_model =
  rm_name :: string
  rm_estimator :: estimator
  model_data :: pvalue
  content_types :: "string list"
  response_types :: "string list"
  inference_instances :: "string list"
  transform_instances :: "string list"
  rm_model_package_group_name :: string
  approval_status :: pvalue
  rm_model_metrics :: model_metrics

text \<open>The comparison classes of \<^verbatim>\<open>sagemaker.workflow.conditions\<close>.\<close>

datatype condition =
    ConditionEquals pvalue pvalue
  | ConditionGreaterThan pvalue pvalue
  | ConditionGreaterThanOrEqualTo pvalue pvalue
  | ConditionLessThan pvalue pvalue
  | ConditionLessThanOrEqualTo pvalue pvalue

fun left :: "condition \<Rightarrow> pvalue" where
  "left (ConditionEquals l r) = l"
| "left (ConditionGreaterThan l r) = l"
| "left (ConditionGreaterThanOrEqualTo l r) = l"
| "left (ConditionLessThan l r) = l"
| "left (ConditionLessThanOrEqualTo l r) = l"

fun right :: "condition \<Rightarrow> pvalue" where
  "right (ConditionEquals l r) = r"
| "right (ConditionGreaterThan l r) = r"
| "right (ConditionGreaterThanOrEqualTo l r) = r"
| "right (ConditionLessThan l r) = r"
| "right (ConditionLessThanOrEqualTo l r) = r"

fun is_greater_or_equal :: "condition \<Rightarrow> bool" where
  "is_greater_or_equal (ConditionGreaterThanOrEqualTo l r) = True"
| "is_greater_or_equal c = False"

text \<open>
  \<^verbatim>\<open>ConditionStep(name, conditions, if_steps, else_steps)\<close> holds steps itself.
  A condition step takes no cache configuration.
\<close>

datatype step =
    ProcessingStep processing_step
  | TrainingStep training_step
  | RegisterModel register_model
  | ConditionStep string "condition list" "step list" "step list"

fun step_name :: "step \<Rightarrow> string" where
  "step_name (ProcessingStep p) = ps_name p"
| "step_name (TrainingStep t) = ts_name t"
| "step_name (RegisterModel r) = rm_name r"
| "step_name (ConditionStep n cs ifs elses) = n"

fun conditions :: "step \<Rightarrow> condition list" where
  "conditions (ConditionStep n cs ifs elses) = cs"
| "conditions s = []"

fun if_steps :: "step \<Rightarrow> step list" where
  "if_steps (ConditionStep n cs ifs elses) = ifs"
| "if_steps s = []"

fun else_steps :: "step \<Rightarrow> step list" where
  "else_steps (ConditionStep n cs ifs elses) = elses"
| "else_steps s = []"

fun step_cache_config :: "step \<Rightarrow> cache_config option" where
  "step_cache_config (ProcessingStep p) = ps_cache_config p"
| "step_cache_config (TrainingStep t) = ts_cache_config t"
| "step_cache_config (RegisterModel r) = None"
| "step_cache_config (ConditionStep n cs ifs elses) = None"

fun processing_inputs :: "step \<Rightarrow> processing_input list" where
  "processing_inputs (ProcessingStep p) = ps_inputs p"
| "processing_inputs s = []"

fun processing_outputs :: "step \<Rightarrow> processing_output list" where
  "processing_outputs (ProcessingStep p) = ps_outputs p"
| "processing_outputs s = []"

fun property_files :: "step \<Rightarrow> property_file list" where
  "property_files (ProcessingStep p) = ps_property_files p"
| "property_files s = []"

fun training_inputs :: "step \<Rightarrow> (string \<times> training_input) list" where
  "training_inputs (TrainingStep t) = ts_inputs t"
| "training_inputs s = []"

fun approval_status_of :: "step \<Rightarrow> pvalue option" where
  "approval_status_of (RegisterModel r) = Some (approval_status r)"
| "approval_status_of s = None"

datatype step_kind = Processing | Training | Registration | Condition

fun kind_of :: "step \<Rightarrow> step_kind" where
  "kind_of (ProcessingStep p) = Processing"
| "kind_of (TrainingStep t) = Training"
| "kind_of (RegisterModel r) = Registration"
| "kind_of (ConditionStep n cs ifs elses) = Condition"

record pipeline =
  pl_name :: string
  parameters :: "parameter list"
  steps :: "step list"

subsection \<open>The notebook's objects\<close>

text \<open>Setup cell.\<close>

definition prefix :: string where
  "prefix = ''sagemaker/DEMO-pipelines-churn''"

definition base_job_prefix :: string where
  "base_job_prefix = ''CustomerChurn''"

definition model_package_group_name :: string where
  "model_package_group_name = ''ChurnModelPackageGroup-v1''"

definition pipeline_name :: string where
  "pipeline_name = ''ChurnPipeline-v1''"

text \<open>Gather the data: \<^verbatim>\<open>bucket\<close> is what \<^verbatim>\<open>default_bucket()\<close> returned.\<close>

definition raw_data_key :: string where
  "raw_data_key = prefix @ ''/data/RawData.csv''"

definition raw_data_s3uri :: "string \<Rightarrow> string" where
  "raw_data_s3uri bucket = ''s3://'' @ bucket @ ''/'' @ raw_data_key"

text \<open>Processing step for feature engineering.\<close>

definition processing_instance_count :: parameter where
  "processing_instance_count = ParameterInteger ''ProcessingInstanceCount'' (Some 1)"

definition processing_instance_type :: parameter where
  "processing_instance_type = ParameterString ''ProcessingInstanceType'' (Some ''ml.m5.xlarge'')"

definition input_data :: "string \<Rightarrow> parameter" where
  "input_data bucket = ParameterString ''InputDataUrl'' (Some (raw_data_s3uri bucket))"

definition sklearn_processor :: "string \<Rightarrow> processor" where
  "sklearn_processor role =
     SKLearnProcessor ''0.23-1'' (Param processing_instance_type)
       (Param processing_instance_count) role"

definition step_process :: "string \<Rightarrow> string \<Rightarrow> step" where
  "step_process bucket role = ProcessingStep
     \<lparr> ps_name = ''CustomerChurnProcess'',
       ps_processor = sklearn_processor role,
       ps_inputs =
         [\<lparr> input_name = Some ''raw'',
            pi_source = Param (input_data bucket),
            pi_destination = ''/opt/ml/processing/input/raw'' \<rparr>],
       ps_outputs =
         [\<lparr> output_name = ''train'', po_source = ''/opt/ml/processing/train'' \<rparr>,
          \<lparr> output_name = ''validation'', po_source = ''/opt/ml/processing/validation'' \<rparr>,
          \<lparr> output_name = ''test'', po_source = ''/opt/ml/processing/test'' \<rparr>],
       ps_code = ''./preprocess.py'',
       ps_cache_config = Some \<lparr> enable_caching = True, expire_after = Some ''T2H'' \<rparr>,
       ps_property_files = [] \<rparr>"

text \<open>Training step. \<^verbatim>\<open>image_uri\<close> is what \<^verbatim>\<open>image_uris.retrieve\<close> returned.\<close>

definition training_instance_type :: parameter where
  "training_instance_type = ParameterString ''TrainingInstanceType'' (Some ''ml.m5.xlarge'')"

definition training_max_depth :: parameter where
  "training_max_depth = ParameterString ''TrainingMaxDepth'' (Some ''5'')"

definition model_path :: "string \<Rightarrow> string" where
  "model_path bucket = ''s3://'' @ bucket @ ''/'' @ base_job_prefix @ ''/CustomerChurnTrain''"

definition xgb_train :: "string \<Rightarrow> string \<Rightarrow> string \<Rightarrow> estimator" where
  "xgb_train bucket role image_uri =
     \<lparr> est_image_uri = image_uri,
       est_instance_type = Param training_instance_type,
       est_instance_count = 1,
       est_output_path = model_path bucket,
       est_base_job_name = base_job_prefix @ ''/CustomerChurn-train'',
       est_role = role,
       hyperparameters =
         [(''objective'', Prim (PString ''binary:logistic'')),
          (''num_round'', Prim (PInteger 50)),
          (''max_depth'', Param training_max_depth),
          (''eta'', Prim (PFloat (2 / 10))),
          (''gamma'', Prim (PInteger 4)),
          (''min_child_weight'', Prim (PInteger 6)),
          (''subsample'', Prim (PFloat (7 / 10)))] \<rparr>"

definition processing_output_s3uri :: "string \<Rightarrow> string \<Rightarrow> pvalue" where
  "processing_output_s3uri sname oname =
     Prop (Properties sname [''ProcessingOutputConfig'', ''Outputs'', oname, ''S3Output'', ''S3Uri''])"

definition s3_model_artifacts :: "string \<Rightarrow> pvalue" where
  "s3_model_artifacts sname = Prop (Properties sname [''ModelArtifacts'', ''S3ModelArtifacts''])"

definition step_train :: "string \<Rightarrow> string \<Rightarrow> string \<Rightarrow> step" where
  "step_train bucket role image_uri = TrainingStep
     \<lparr> ts_name = ''CustomerChurnTrain'',
       ts_estimator = xgb_train bucket role image_uri,
       ts_inputs =
         [(''train'',
            \<lparr> s3_data = processing_output_s3uri (step_name (step_process bucket role)) ''train'',
              ti_content_type = ''text/csv'' \<rparr>),
          (''validation'',
            \<lparr> s3_data = processing_output_s3uri (step_name (step_process bucket role)) ''validation'',
              ti_content_type = ''text/csv'' \<rparr>)],
       ts_cache_config = None \<rparr>"

text \<open>Processing step for evaluation.\<close>

definition script_eval :: "string \<Rightarrow> string \<Rightarrow> processor" where
  "script_eval role image_uri =
     ScriptProcessor image_uri [''python3''] (Param processing_instance_type)
       (Prim (PInteger 1)) (base_job_prefix @ ''/script-CustomerChurn-eval'') role"

definition evaluation_report :: property_file where
  "evaluation_report =
     \<lparr> pf_name = ''EvaluationReport'', pf_output_name = ''evaluation'',
       pf_path = ''evaluation.json'' \<rparr>"

definition step_eval :: "string \<Rightarrow> string \<Rightarrow> string \<Rightarrow> step" where
  "step_eval bucket role image_uri = ProcessingStep
     \<lparr> ps_name = ''CustomerChurnEval'',
       ps_processor = script_eval role image_uri,
       ps_inputs =
         [\<lparr> input_name = None,
            pi_source = s3_model_artifacts (step_name (step_train bucket role image_uri)),
            pi_destination = ''/opt/ml/processing/model'' \<rparr>,
          \<lparr> input_name = None,
            pi_source = processing_output_s3uri (step_name (step_process bucket role)) ''test'',
            pi_destination = ''/opt/ml/processing/test'' \<rparr>],
       ps_outputs =
         [\<lparr> output_name = ''evaluation'', po_source = ''/opt/ml/processing/evaluation'' \<rparr>],
       ps_code = ''./evaluate.py'',
       ps_cache_config = None,
       ps_property_files = [evaluation_report] \<rparr>"

text \<open>
  Register model step and condition step. \<^verbatim>\<open>eval_uri\<close> is the string the SDK
  gives for
  \<^verbatim>\<open>step_eval.arguments["ProcessingOutputConfig"]["Outputs"][0]["S3Output"]["S3Uri"]\<close>.
\<close>

definition model_approval_status :: parameter where
  "model_approval_status = ParameterString ''ModelApprovalStatus'' (Some ''PendingManualApproval'')"

definition model_metrics :: "string \<Rightarrow> model_metrics" where
  "model_metrics eval_uri =
     \<lparr> model_statistics =
         \<lparr> ms_s3_uri = eval_uri @ ''/evaluation.json'', ms_content_type = ''application/json'' \<rparr> \<rparr>"

definition step_register :: "string \<Rightarrow> string \<Rightarrow> string \<Rightarrow> string \<Rightarrow> step" where
  "step_register bucket role image_uri eval_uri = RegisterModel
     \<lparr> rm_name = ''CustomerChurnRegisterModel'',
       rm_estimator = xgb_train bucket role image_uri,
       model_data = s3_model_artifacts (step_name (step_train bucket role image_uri)),
       content_types = [''text/csv''],
       response_types = [''text/csv''],
       inference_instances = [''ml.t2.medium'', ''ml.m5.large''],
       transform_instances = [''ml.m5.large''],
       rm_model_package_group_name = model_package_group_name,
       approval_status = Param model_approval_status,
       rm_model_metrics = model_metrics eval_uri \<rparr>"

definition cond_register :: "string \<Rightarrow> string \<Rightarrow> string \<Rightarrow> condition" where
  "cond_register bucket role image_uri =
     ConditionGreaterThanOrEqualTo
       (JsonGet \<lparr> jg_step_name = step_name (step_eval bucket role image_uri),
                 jg_property_file = evaluation_report,
                 jg_json_path = ''binary_classification_metrics.f1.value'' \<rparr>)
       (Prim (PFloat (8 / 10)))"

definition step_cond :: "string \<Rightarrow> string \<Rightarrow> string \<Rightarrow> string \<Rightarrow> step" where
  "step_cond bucket role image_uri eval_uri =
     ConditionStep ''CustomerChurnAccuracyCond''
       [cond_register bucket role image_uri]
       [step_register bucket role image_uri eval_uri]
       []"

text \<open>Construct the pipeline.\<close>

definition pipeline :: "string \<Rightarrow> string \<Rightarrow> string \<Rightarrow> string \<Rightarrow> pipeline" where
  "pipeline bucket role image_uri eval_uri =
     \<lparr> pl_name = pipeline_name,
       parameters =
         [processing_instance_type,
          processing_instance_count,
          training_max_depth,
          training_instance_type,
          model_approval_status,
          input_data bucket],
       steps =
         [step_process bucket role,
          step_train bucket role image_uri,
          step_eval bucket role image_uri,
          step_cond bucket role image_uri eval_uri] \<rparr>"

text \<open>
  The parameter dictionaries of the two \<^verbatim>\<open>pipeline.start\<close> calls; the first call
  passes none.
\<close>

definition first_start_parameters :: "(string \<times> primitive) list" where
  "first_start_parameters = []"

definition second_start_parameters :: "(string \<times> primitive) list" where
  "second_start_parameters =
     [(''ProcessingInstanceType'', PString ''ml.c5.xlarge''),
      (''ModelApprovalStatus'', PString ''Approved''),
      (''TrainingMaxDepth'', PString ''6'')]"

section \<open>Reading a definition\<close>

text \<open>
  Every step object that a list of steps holds: the steps of the list and, after a
  condition step, the steps of its branches.
\<close>

fun defined_step :: "step \<Rightarrow> step list"
  and defined_steps :: "step list \<Rightarrow> step list" where
  "defined_step (ProcessingStep p) = [ProcessingStep p]"
| "defined_step (TrainingStep t) = [TrainingStep t]"
| "defined_step (RegisterModel r) = [RegisterModel r]"
| "defined_step (ConditionStep n cs ifs elses) =
     ConditionStep n cs ifs elses # defined_steps ifs @ defined_steps elses"
| "defined_steps [] = []"
| "defined_steps (s # ss) = defined_step s @ defined_steps ss"

text \<open>
  The steps whose jobs a step's arguments refer to: a property of a step's job
  (\<^verbatim>\<open>step.properties...\<close>) or a JSON lookup in a step's property file names
  that step.
\<close>

fun pvalue_refs :: "pvalue \<Rightarrow> string list" where
  "pvalue_refs (Prim v) = []"
| "pvalue_refs (Param p) = []"
| "pvalue_refs (Prop pr) = [prop_step pr]"
| "pvalue_refs (JsonGet j) = [jg_step_name j]"

fun processor_refs :: "processor \<Rightarrow> string list" where
  "processor_refs (SKLearnProcessor fv ity ic ro) = pvalue_refs ity @ pvalue_refs ic"
| "processor_refs (ScriptProcessor im cmd ity ic bj ro) = pvalue_refs ity @ pvalue_refs ic"

definition estimator_refs :: "estimator \<Rightarrow> string list" where
  "estimator_refs est =
     pvalue_refs (est_instance_type est) @ concat (map (pvalue_refs \<circ> snd) (hyperparameters est))"

fun depends_on :: "step \<Rightarrow> string list" where
  "depends_on (ProcessingStep p) =
     processor_refs (ps_processor p) @ concat (map (pvalue_refs \<circ> pi_source) (ps_inputs p))"
| "depends_on (TrainingStep t) =
     estimator_refs (ts_estimator t) @ concat (map (pvalue_refs \<circ> s3_data \<circ> snd) (ts_inputs t))"
| "depends_on (RegisterModel r) =
     estimator_refs (rm_estimator r) @ pvalue_refs (model_data r) @ pvalue_refs (approval_status r)"
| "depends_on (ConditionStep n cs ifs elses) =
     concat (map (\<lambda>c. pvalue_refs (left c) @ pvalue_refs (right c)) cs)"

definition deps_of :: "pipeline \<Rightarrow> string \<Rightarrow> string list" where
  "deps_of pl n =
     (case find (\<lambda>s. step_name s = n) (steps pl) of
        Some s \<Rightarrow> depends_on s
      | None \<Rightarrow> [])"

section \<open>The service\<close>

text \<open>
  The service that runs executions is not in the repository, and the notebook only
  calls it. Where a claim speaks of an execution, the service's part is modelled from
  the words of the specification; each such definition says so.
\<close>

text \<open>
  Modelled from the spec: the service's scheduling of the steps of an execution,
  which is missing from the repository. The specification calls a pipeline
  \<^emph>\<open>"a remote, declaratively-defined directed acyclic graph of job steps executed by a
  managed service"\<close> and names \<^emph>\<open>"DAG construction, step scheduling"\<close> as the service's
  work. A schedule is the list of step names in the order in which the service starts
  them; \<open>allowed deps earlier sched\<close> says that each step of \<open>sched\<close> starts when
  all steps it depends on are among those before it (\<open>earlier\<close> holds the ones
  before \<open>sched\<close>).
\<close>

fun allowed :: "(string \<Rightarrow> string list) \<Rightarrow> string list \<Rightarrow> string list \<Rightarrow> bool" where
  "allowed deps earlier [] = True"
| "allowed deps earlier (n # ns) =
     (list_all (\<lambda>d. d \<in> set earlier) (deps n) \<and> allowed deps (n # earlier) ns)"

text \<open>\<open>before a b sched\<close>: when \<open>b\<close> starts, \<open>a\<close> has started earlier.\<close>

definition before :: "string \<Rightarrow> string \<Rightarrow> string list \<Rightarrow> bool" where
  "before a b sched = (a \<in> set (takeWhile (\<lambda>x. x \<noteq> b) sched))"

text \<open>
  Modelled from the spec: the service's choice of the parameter values of one
  execution, which is missing from the repository. The specification gives a pipeline
  parameter a \<^emph>\<open>"name, type, default value"\<close> and lets the service
  \<^emph>\<open>"start execution with optional parameter overrides"\<close>. The values of an execution
  are the defaults, overridden entry by entry by the dictionary of the
  \<^verbatim>\<open>start\<close> call. A dictionary that names something that is no parameter of the
  pipeline overrides no parameter, and no execution is started with it.
\<close>

fun defaults :: "parameter list \<Rightarrow> (string \<rightharpoonup> primitive)" where
  "defaults [] = Map.empty"
| "defaults (p # ps) =
     (case default_value p of
        None \<Rightarrow> defaults ps
      | Some v \<Rightarrow> (defaults ps)(parameter_name p \<mapsto> v))"

definition execution_parameters ::
  "parameter list \<Rightarrow> (string \<times> primitive) list \<Rightarrow> (string \<rightharpoonup> primitive) option" where
  "execution_parameters ps ov =
     (if list_all (\<lambda>n. n \<in> set (map parameter_name ps)) (map fst ov)
      then Some (fold (\<lambda>(n, v) m. m(n \<mapsto> v)) ov (defaults ps))
      else None)"

text \<open>
  Modelled from the spec: what a step argument stands for in an execution, which is
  decided by the service and missing from the repository. A pipeline parameter given
  to a step as an argument stands for that parameter's value in the execution (this is
  what the specification's \<^emph>\<open>"parameter overrides"\<close> act on); a constant stands for
  itself; a property of a job or of a property file is known to the service only.
\<close>

fun argument_value :: "(string \<rightharpoonup> primitive) \<Rightarrow> pvalue \<Rightarrow> primitive option" where
  "argument_value m (Prim v) = Some v"
| "argument_value m (Param p) = m (parameter_name p)"
| "argument_value m (Prop pr) = None"
| "argument_value m (JsonGet j) = None"

section \<open>The notebook as a script\<close>

text \<open>
  The code cells from top to bottom are one sequence of calls into the SDK. A call
  returns a value or raises; the notebook has no \<^verbatim>\<open>try\<close>, so a raise ends the run.
  A run is one pass over all code cells; it stops at the first cell that raises.

  The SDK and everything behind it is a parameter of the script, the client: a
  function from the operation called and its arguments to the outcome, \<open>Inl e\<close> for
  an exception \<open>e\<close> and \<open>Inr x\<close> for the value \<open>x\<close> returned, on a world \<open>'w\<close> that
  the call may change. A returned value is a string: the bucket, the role, the region,
  the image URI, the S3 URI and the ARN of an execution are strings, and the notebook
  does not use what the other calls return. The shell escape \<^verbatim>\<open>!aws s3 cp ...\<close>
  returns an exit status and never raises.
\<close>

datatype op =
    Session | S3Resource | DefaultBucket | GetExecutionRole | Shell | UploadFile
  | RegionName | ImageUrisRetrieve | StepArguments
  | Upsert | Start | Describe | Wait | ListSteps

datatype arg =
    AStr string
  | AValue pvalue
  | AStep step
  | APipeline pipeline
  | AParameters "(string \<times> primitive) list"

record ('w, 'e) client =
  call :: "op \<Rightarrow> arg list \<Rightarrow> 'w \<Rightarrow> ('e + string) \<times> 'w"
  shell :: "string \<Rightarrow> 'w \<Rightarrow> nat \<times> 'w"

text \<open>One statement after another: an exception skips the rest.\<close>

definition andthen ::
  "('s \<Rightarrow> ('e + 'a) \<times> 's) \<Rightarrow> ('a \<Rightarrow> 's \<Rightarrow> ('e + 'b) \<times> 's) \<Rightarrow> 's \<Rightarrow> ('e + 'b) \<times> 's" where
  "andthen m f s =
     (case m s of
        (Inl e, s') \<Rightarrow> (Inl e, s')
      | (Inr x, s') \<Rightarrow> f x s')"

definition bang :: "('w, 'e) client \<Rightarrow> string \<Rightarrow> 'w \<Rightarrow> ('e + nat) \<times> 'w" where
  "bang cl cmd s = (case shell cl cmd s of (exit_status, s') \<Rightarrow> (Inr exit_status, s'))"

definition finished :: "'w \<Rightarrow> ('e + unit) \<times> 'w" where
  "finished s = (Inr (), s)"

text \<open>
  The notebook. The objects of the first section are built between the calls from the
  values the calls returned.
\<close>

definition notebook :: "('w, 'e) client \<Rightarrow> 'w \<Rightarrow> ('e + unit) \<times> 'w" where
  "notebook cl =
     andthen (call cl Session []) (\<lambda>sm_session.
     andthen (call cl S3Resource [AStr ''s3'']) (\<lambda>s3.
     andthen (call cl DefaultBucket []) (\<lambda>bucket.
     andthen (call cl GetExecutionRole []) (\<lambda>role.
     andthen (bang cl
        ''aws s3 cp s3://sagemaker-sample-files/datasets/tabular/synthetic/churn.txt ./data/churn.txt'')
        (\<lambda>copied.
     andthen (call cl UploadFile [AStr bucket, AStr raw_data_key, AStr ''./data/churn.txt''])
        (\<lambda>uploaded.
     andthen (call cl RegionName []) (\<lambda>region.
     andthen (call cl ImageUrisRetrieve
        [AStr ''xgboost'', AStr region, AStr ''1.3-1'', AStr ''py3'',
         AValue (Param training_instance_type)]) (\<lambda>image_uri.
     andthen (call cl StepArguments [AStep (step_eval bucket role image_uri)]) (\<lambda>eval_uri.
     andthen (call cl Upsert [APipeline (pipeline bucket role image_uri eval_uri), AStr role])
        (\<lambda>upserted.
     andthen (call cl Start
        [APipeline (pipeline bucket role image_uri eval_uri), AParameters first_start_parameters])
        (\<lambda>execution.
     andthen (call cl Describe [AStr execution]) (\<lambda>described.
     andthen (call cl Wait [AStr execution]) (\<lambda>waited.
     andthen (call cl ListSteps [AStr execution]) (\<lambda>listed.
     andthen (call cl Start
        [APipeline (pipeline bucket role image_uri eval_uri), AParameters second_start_parameters])
        (\<lambda>execution.
     andthen (call cl Wait [AStr execution]) (\<lambda>waited.
     finished))))))))))))))))"

subsection \<open>What a run did\<close>

text \<open>
  To speak of the calls of a run, the client is made to keep a log in its world: one
  entry per call it receives, with the operation, the arguments and the outcome. The
  log is written by the client, not by the notebook, so it holds exactly the calls the
  notebook made. The shell escape is logged with the empty string as its value.
\<close>

type_synonym 'e entry = "(op \<times> arg list) \<times> ('e + string)"

definition logged_call ::
  "('w, 'e) client \<Rightarrow> op \<Rightarrow> arg list \<Rightarrow> 'w \<times> 'e entry list \<Rightarrow> ('e + string) \<times> ('w \<times> 'e entry list)" where
  "logged_call cl c args s =
     (case s of (w, tr) \<Rightarrow>
        (case call cl c args w of (r, w') \<Rightarrow> (r, (w', tr @ [((c, args), r)]))))"

definition logged_shell ::
  "('w, 'e) client \<Rightarrow> string \<Rightarrow> 'w \<times> 'e entry list \<Rightarrow> nat \<times> ('w \<times> 'e entry list)" where
  "logged_shell cl cmd s =
     (case s of (w, tr) \<Rightarrow>
        (case shell cl cmd w of
           (exit_status, w') \<Rightarrow> (exit_status, (w', tr @ [((Shell, [AStr cmd]), Inr [])]))))"

definition logged :: "('w, 'e) client \<Rightarrow> ('w \<times> 'e entry list, 'e) client" where
  "logged cl = \<lparr> call = logged_call cl, shell = logged_shell cl \<rparr>"

text \<open>
  \<open>same_run r r'\<close>: the run \<open>r\<close> with the logging client and the run \<open>r'\<close> with
  the client itself have the same result and leave the same world.
\<close>

definition same_run :: "('e + 'a) \<times> ('w \<times> 'e entry list) \<Rightarrow> ('e + 'a) \<times> 'w \<Rightarrow> bool" where
  "same_run r r' = (fst r = fst r' \<and> fst (snd r) = snd r')"

text \<open>The value that the call at position \<open>k\<close> of a log returned.\<close>

definition returned :: "'e entry list \<Rightarrow> nat \<Rightarrow> string" where
  "returned tr k =
     (if k < length tr then (case snd (tr ! k) of Inl e \<Rightarrow> [] | Inr x \<Rightarrow> x) else [])"

fun is_returned :: "'e entry \<Rightarrow> bool" where
  "is_returned (c, Inr x) = True"
| "is_returned (c, Inl e) = False"

text \<open>
  The calls of a run in which nothing raises, given the values returned for the
  bucket, the role, the region, the image URI, the S3 URI of the evaluation output and
  the two executions.
\<close>

definition script_calls ::
  "string \<Rightarrow> string \<Rightarrow> string \<Rightarrow> string \<Rightarrow> string \<Rightarrow> string \<Rightarrow> string \<Rightarrow> (op \<times> arg list) list" where
  "script_calls bucket role region image_uri eval_uri execution execution2 =
     [(Session, []),
      (S3Resource, [AStr ''s3'']),
      (DefaultBucket, []),
      (GetExecutionRole, []),
      (Shell, [AStr
        ''aws s3 cp s3://sagemaker-sample-files/datasets/tabular/synthetic/churn.txt ./data/churn.txt'']),
      (UploadFile, [AStr bucket, AStr raw_data_key, AStr ''./data/churn.txt'']),
      (RegionName, []),
      (ImageUrisRetrieve,
        [AStr ''xgboost'', AStr region, AStr ''1.3-1'', AStr ''py3'',
         AValue (Param training_instance_type)]),
      (StepArguments, [AStep (step_eval bucket role image_uri)]),
      (Upsert, [APipeline (pipeline bucket role image_uri eval_uri), AStr role]),
      (Start,
        [APipeline (pipeline bucket role image_uri eval_uri), AParameters first_start_parameters]),
      (Describe, [AStr execution]),
      (Wait, [AStr execution]),
      (ListSteps, [AStr execution]),
      (Start,
        [APipeline (pipeline bucket role image_uri eval_uri), AParameters second_start_parameters]),
      (Wait, [AStr execution2])]"

text \<open>The calls of a run with the log \<open>tr\<close>, from the values the log holds.\<close>

definition calls_of :: "'e entry list \<Rightarrow> (op \<times> arg list) list" where
  "calls_of tr =
     script_calls (returned tr 2) (returned tr 3) (returned tr 6) (returned tr 7)
       (returned tr 8) (returned tr 10) (returned tr 14)"

text \<open>The pipeline that a run with the log \<open>tr\<close> builds.\<close>

definition built :: "'e entry list \<Rightarrow> pipeline" where
  "built tr = pipeline (returned tr 2) (returned tr 3) (returned tr 7) (returned tr 8)"

text \<open>
  A client for trying the script: a call raises its own operation when that is in
  \<open>failing\<close> and returns \<open>reply\<close> otherwise; the world counts the calls.
\<close>

fun reply :: "op \<Rightarrow> string" where
  "reply DefaultBucket = ''bucket''"
| "reply GetExecutionRole = ''role''"
| "reply RegionName = ''us-east-1''"
| "reply ImageUrisRetrieve = ''image''"
| "reply StepArguments = ''s3://bucket/eval''"
| "reply Start = ''execution''"
| "reply c = []"

definition test_client :: "op list \<Rightarrow> (nat, op) client" where
  "test_client failing =
     \<lparr> call = (\<lambda>c args w. if c \<in> set failing then (Inl c, Suc w) else (Inr (reply c), Suc w)),
       shell = (\<lambda>cmd w. (0, Suc w)) \<rparr>"

text \<open>The log of the run with the client \<open>test_client []\<close>, in which nothing raises.\<close>

definition quiet_log :: "op entry list" where
  "quiet_log =
     map (\<lambda>c. (c, Inr (reply (fst c))))
       (script_calls ''bucket'' ''role'' ''us-east-1'' ''image'' ''s3://bucket/eval''
          ''execution'' ''execution'')"

text \<open>The log of the run with the client \<open>test_client [Upsert]\<close>: \<^verbatim>\<open>upsert\<close> raises.\<close>

definition upsert_raised_log :: "op entry list" where
  "upsert_raised_log =
     map (\<lambda>c. (c, Inr (reply (fst c))))
       (take 9 (script_calls ''bucket'' ''role'' ''us-east-1'' ''image'' ''s3://bucket/eval''
          ''execution'' ''execution''))
     @ [((Upsert, [APipeline (pipeline ''bucket'' ''role'' ''image'' ''s3://bucket/eval''),
                   AStr ''role'']), Inl Upsert)]"

section \<open>The runs of the script\<close>

lemma andthen_callE:
  assumes "andthen (call (logged cl) c args) f (w, tr0) = (res, (w', tr))"
  obtains (raised) e where "res = Inl e" and "tr = tr0 @ [((c, args), Inl e)]"
    | (returned) x w1 where "f x (w1, tr0 @ [((c, args), Inr x)]) = (res, (w', tr))"
proof (cases "call cl c args w")
  case (Pair r w1)
  show ?thesis
  proof (cases r)
    case (Inl e)
    with Pair assms have "res = Inl e" "tr = tr0 @ [((c, args), Inl e)]"
      by (simp_all add: andthen_def logged_def logged_call_def)
    then show ?thesis by (rule raised)
  next
    case (Inr x)
    with Pair assms have "f x (w1, tr0 @ [((c, args), Inr x)]) = (res, (w', tr))"
      by (simp add: andthen_def logged_def logged_call_def)
    then show ?thesis by (rule returned)
  qed
qed

lemma andthen_bangE:
  assumes "andthen (bang (logged cl) cmd) f (w, tr0) = (res, (w', tr))"
  obtains x w1 where "f x (w1, tr0 @ [((Shell, [AStr cmd]), Inr [])]) = (res, (w', tr))"
proof (cases "shell cl cmd w")
  case (Pair st w1)
  with assms have "f st (w1, tr0 @ [((Shell, [AStr cmd]), Inr [])]) = (res, (w', tr))"
    by (simp add: andthen_def bang_def logged_def logged_shell_def)
  then show ?thesis by (rule that)
qed

lemma finishedE:
  assumes "finished (w, tr0) = (res, (w', tr))"
  obtains "res = Inr ()" and "tr = tr0"
  using assms by (simp add: finished_def)

lemma notebook_run:
  assumes "notebook (logged cl) (w, []) = (res, (w', tr))"
  shows "tr \<noteq> []"
    and "length tr \<le> 16"
    and "map fst tr = take (length tr) (calls_of tr)"
    and "list_all is_returned (butlast tr)"
    and "case res of Inl e \<Rightarrow> snd (last tr) = Inl e | Inr u \<Rightarrow> length tr = 16 \<and> is_returned (last tr)"
  using assms unfolding notebook_def
  by (elim andthen_callE andthen_bangE finishedE;
      simp add: calls_of_def script_calls_def returned_def)+

lemma same_run_call:
  assumes "\<And>x w1 tr1. same_run (f x (w1, tr1)) (g x w1)"
  shows "same_run (andthen (call (logged cl) c args) f (w, tr0)) (andthen (call cl c args) g w)"
proof (cases "call cl c args w")
  case (Pair r w1)
  then show ?thesis
    using assms
    by (cases r) (simp_all add: andthen_def logged_def logged_call_def same_run_def)
qed

lemma same_run_bang:
  assumes "\<And>x w1 tr1. same_run (f x (w1, tr1)) (g x w1)"
  shows "same_run (andthen (bang (logged cl) cmd) f (w, tr0)) (andthen (bang cl cmd) g w)"
proof (cases "shell cl cmd w")
  case (Pair st w1)
  then show ?thesis
    using assms by (simp add: andthen_def bang_def logged_def logged_shell_def)
qed

lemma same_run_finished: "same_run (finished (w, tr0)) (finished w)"
  by (simp add: finished_def same_run_def)

lemma notebook_same_run: "same_run (notebook (logged cl) (w, tr0)) (notebook cl w)"
  unfolding notebook_def
  by (intro same_run_call same_run_bang same_run_finished)

lemma notebook_unlogged:
  assumes "notebook (logged cl) (w, tr0) = (res, (w', tr))"
  shows "notebook cl w = (res, w')"
  using notebook_same_run [of cl w tr0] assms
  by (simp add: same_run_def prod_eq_iff)

lemma run_all_ok:
  "notebook (logged (test_client [])) (0, []) = (Inr (), (16, quiet_log))"
  by (simp add: notebook_def andthen_def bang_def finished_def logged_def logged_call_def
      logged_shell_def test_client_def script_calls_def quiet_log_def)

lemma run_upsert_raises:
  "notebook (logged (test_client [Upsert])) (0, []) = (Inl Upsert, (10, upsert_raised_log))"
  by (simp add: notebook_def andthen_def bang_def finished_def logged_def logged_call_def
      logged_shell_def test_client_def script_calls_def upsert_raised_log_def)

lemmas notebook_objects =
  pipeline_def step_process_def step_train_def step_eval_def step_cond_def step_register_def
  cond_register_def evaluation_report_def

lemmas notebook_parameters =
  processing_instance_count_def processing_instance_type_def input_data_def
  training_instance_type_def training_max_depth_def model_approval_status_def

lemma is_returned_iff: "is_returned x \<longleftrightarrow> (\<exists>v. snd x = Inr v)"
  by (cases x; cases "snd x") auto

lemma run_entry:
  assumes "notebook (logged cl) (w, []) = (res, (w', tr))" and "k < length tr"
  shows "fst (tr ! k) = calls_of tr ! k"
proof -
  from assms(2) have "fst (tr ! k) = map fst tr ! k" by simp
  also have "\<dots> = take (length tr) (calls_of tr) ! k"
    using notebook_run(3) [OF assms(1)] by simp
  also from assms(2) have "\<dots> = calls_of tr ! k" by simp
  finally show ?thesis .
qed

lemma run_entry_returned:
  assumes "notebook (logged cl) (w, []) = (res, (w', tr))" and "Suc k < length tr"
  shows "\<exists>v. snd (tr ! k) = Inr v"
proof -
  from assms(2) have "k < length (butlast tr)" by simp
  with notebook_run(4) [OF assms(1)] have "is_returned (butlast tr ! k)"
    by (simp add: list_all_length)
  with assms(2) show ?thesis by (simp add: nth_butlast is_returned_iff)
qed

lemma calls_of_ops:
  "map fst (calls_of tr) =
     [Session, S3Resource, DefaultBucket, GetExecutionRole, Shell, UploadFile, RegionName,
      ImageUrisRetrieve, StepArguments, Upsert, Start, Describe, Wait, ListSteps, Start, Wait]"
  by (simp add: calls_of_def script_calls_def)

lemma calls_of_nth:
  "calls_of tr ! 9 = (Upsert, [APipeline (built tr), AStr (returned tr 3)])"
  "calls_of tr ! 10 = (Start, [APipeline (built tr), AParameters first_start_parameters])"
  "calls_of tr ! 14 = (Start, [APipeline (built tr), AParameters second_start_parameters])"
  by (simp_all add: calls_of_def script_calls_def built_def)

lemma op_positions:
  assumes "i < length (calls_of tr)"
  shows "fst (calls_of tr ! i) = Start \<Longrightarrow> i = 10 \<or> i = 14"
    and "fst (calls_of tr ! i) = Upsert \<Longrightarrow> i = 9"
  using assms
  by (auto simp: calls_of_def script_calls_def less_Suc_eq_0_disj)

lemma length_calls_of: "length (calls_of tr) = 16"
  by (simp add: calls_of_def script_calls_def)

lemma run_upsert_entry:
  assumes run: "notebook (logged cl) (w, []) = (res, (w', tr))"
    and "((Upsert, args), out) \<in> set tr"
  shows "args = [APipeline (built tr), AStr (returned tr 3)]"
proof -
  from assms(2) obtain i where i: "i < length tr" "tr ! i = ((Upsert, args), out)"
    by (auto simp: in_set_conv_nth)
  with run_entry [OF run i(1)] have c: "calls_of tr ! i = (Upsert, args)" by simp
  from i(1) notebook_run(2) [OF run] have "i < 16" by simp
  with c have "i = 9" using op_positions(2) [of i tr] by (simp add: length_calls_of)
  with c show ?thesis by (simp add: calls_of_nth)
qed

lemma run_starts:
  assumes "notebook (logged cl) (w, []) = (res, (w', tr))"
  shows "res = Inr () \<longrightarrow> 14 < length tr"
    and "9 < length tr \<longrightarrow> fst (tr ! 9) = (Upsert, [APipeline (built tr), AStr (returned tr 3)])"
    and "10 < length tr \<longrightarrow>
      fst (tr ! 10) = (Start, [APipeline (built tr), AParameters first_start_parameters])"
    and "14 < length tr \<longrightarrow>
      fst (tr ! 14) = (Start, [APipeline (built tr), AParameters second_start_parameters])"
  using notebook_run(5) [OF assms] run_entry [OF assms] by (auto simp: calls_of_nth)

lemma quiet_log_values:
  "length quiet_log = 16"
  "built quiet_log = pipeline ''bucket'' ''role'' ''image'' ''s3://bucket/eval''"
  "returned quiet_log 3 = ''role''"
  by (simp_all add: quiet_log_def script_calls_def built_def returned_def)

section \<open>Properties of the notebook's objects\<close>

text \<open>
  Claim C1. The gate of the model registration is one comparison object of the class
  greater-or-equal. Its left operand is the JSON lookup in the property file
  \<^verbatim>\<open>EvaluationReport\<close> (\<^verbatim>\<open>evaluation.json\<close>) of the evaluation step at the path
  \<^verbatim>\<open>binary_classification_metrics.f1.value\<close>; its right operand is the constant 0.8.
  The condition step holds this one condition, and the register-model step is the only
  step of its if-branch.

  The notebook does not compare anything: in every run its calls are calls of the
  script's sequence and nothing else, a run in which nothing raises reaches the
  \<^verbatim>\<open>upsert\<close> call, and every \<^verbatim>\<open>upsert\<close> call of a run hands over the pipeline
  built in that run, which holds the condition step with this condition as an object.
\<close>
theorem condition_gate:
  "conditions (step_cond bucket role image_uri eval_uri) = [cond_register bucket role image_uri]
   \<and> is_greater_or_equal (cond_register bucket role image_uri)
   \<and> left (cond_register bucket role image_uri) =
       JsonGet \<lparr> jg_step_name = ''CustomerChurnEval'',
                 jg_property_file =
                   \<lparr> pf_name = ''EvaluationReport'', pf_output_name = ''evaluation'',
                     pf_path = ''evaluation.json'' \<rparr>,
                 jg_json_path = ''binary_classification_metrics.f1.value'' \<rparr>
   \<and> step_name (step_eval bucket role image_uri) = ''CustomerChurnEval''
   \<and> property_files (step_eval bucket role image_uri) =
       [\<lparr> pf_name = ''EvaluationReport'', pf_output_name = ''evaluation'',
          pf_path = ''evaluation.json'' \<rparr>]
   \<and> right (cond_register bucket role image_uri) = Prim (PFloat (8 / 10))
   \<and> if_steps (step_cond bucket role image_uri eval_uri) =
       [step_register bucket role image_uri eval_uri]
   \<and> kind_of (step_register bucket role image_uri eval_uri) = Registration
   \<and> step_name (step_register bucket role image_uri eval_uri) = ''CustomerChurnRegisterModel''
   \<and> step_cond bucket role image_uri eval_uri
       \<in> set (steps (pipeline bucket role image_uri eval_uri))
   \<and> (notebook (logged cl) (w, []) = (res, (w', tr)) \<longrightarrow>
        map fst tr = take (length tr) (calls_of tr)
      \<and> (res = Inr () \<longrightarrow> 9 < length tr)
      \<and> (9 < length tr \<longrightarrow>
           fst (tr ! 9) = (Upsert, [APipeline (built tr), AStr (returned tr 3)]))
      \<and> (\<forall>args out. ((Upsert, args), out) \<in> set tr \<longrightarrow>
           args = [APipeline (built tr), AStr (returned tr 3)])
      \<and> step_cond (returned tr 2) (returned tr 3) (returned tr 7) (returned tr 8)
           \<in> set (steps (built tr)))"
proof -
  have objects:
    "conditions (step_cond bucket role image_uri eval_uri) = [cond_register bucket role image_uri]
   \<and> is_greater_or_equal (cond_register bucket role image_uri)
   \<and> left (cond_register bucket role image_uri) =
       JsonGet \<lparr> jg_step_name = ''CustomerChurnEval'',
                 jg_property_file =
                   \<lparr> pf_name = ''EvaluationReport'', pf_output_name = ''evaluation'',
                     pf_path = ''evaluation.json'' \<rparr>,
                 jg_json_path = ''binary_classification_metrics.f1.value'' \<rparr>
   \<and> step_name (step_eval bucket role image_uri) = ''CustomerChurnEval''
   \<and> property_files (step_eval bucket role image_uri) =
       [\<lparr> pf_name = ''EvaluationReport'', pf_output_name = ''evaluation'',
          pf_path = ''evaluation.json'' \<rparr>]
   \<and> right (cond_register bucket role image_uri) = Prim (PFloat (8 / 10))
   \<and> if_steps (step_cond bucket role image_uri eval_uri) =
       [step_register bucket role image_uri eval_uri]
   \<and> kind_of (step_register bucket role image_uri eval_uri) = Registration
   \<and> step_name (step_register bucket role image_uri eval_uri) = ''CustomerChurnRegisterModel''
   \<and> step_cond bucket role image_uri eval_uri
       \<in> set (steps (pipeline bucket role image_uri eval_uri))"
    by (simp add: notebook_objects)
  have script: "map fst tr = take (length tr) (calls_of tr)
      \<and> (res = Inr () \<longrightarrow> 9 < length tr)
      \<and> (9 < length tr \<longrightarrow>
           fst (tr ! 9) = (Upsert, [APipeline (built tr), AStr (returned tr 3)]))
      \<and> (\<forall>args out. ((Upsert, args), out) \<in> set tr \<longrightarrow>
           args = [APipeline (built tr), AStr (returned tr 3)])
      \<and> step_cond (returned tr 2) (returned tr 3) (returned tr 7) (returned tr 8)
           \<in> set (steps (built tr))"
    if run: "notebook (logged cl) (w, []) = (res, (w', tr))"
  proof (intro conjI allI impI)
    show "map fst tr = take (length tr) (calls_of tr)" by (rule notebook_run(3) [OF run])
    show "9 < length tr" if "res = Inr ()" using run_starts(1) [OF run] that by simp
    show "fst (tr ! 9) = (Upsert, [APipeline (built tr), AStr (returned tr 3)])"
      if "9 < length tr" using run_starts(2) [OF run] that by simp
    show "args = [APipeline (built tr), AStr (returned tr 3)]"
      if "((Upsert, args), out) \<in> set tr" for args out
      using run_upsert_entry [OF run that] .
    show "step_cond (returned tr 2) (returned tr 3) (returned tr 7) (returned tr 8)
           \<in> set (steps (built tr))"
      by (simp add: built_def pipeline_def)
  qed
  from objects script show ?thesis by blast
qed

theorem condition_gate_witness:
  "notebook (logged (test_client [])) (0, []) = (Inr (), (16, quiet_log))
   \<and> 9 < length quiet_log
   \<and> fst (quiet_log ! 9) =
       (Upsert, [APipeline (pipeline ''bucket'' ''role'' ''image'' ''s3://bucket/eval''),
                 AStr ''role''])
   \<and> conditions (step_cond ''bucket'' ''role'' ''image'' ''s3://bucket/eval'') =
       [cond_register ''bucket'' ''role'' ''image'']
   \<and> step_cond ''bucket'' ''role'' ''image'' ''s3://bucket/eval''
       \<in> set (steps (pipeline ''bucket'' ''role'' ''image'' ''s3://bucket/eval''))"
proof -
  note t = condition_gate [of "''bucket''" "''role''" "''image''" "''s3://bucket/eval''"
      "test_client []" 0 "Inr ()" 16 quiet_log]
  have l: "9 < length quiet_log" by (simp add: quiet_log_values)
  from t run_all_ok l
  have "fst (quiet_log ! 9) = (Upsert, [APipeline (built quiet_log), AStr (returned quiet_log 3)])"
    by blast
  then have u: "fst (quiet_log ! 9) =
       (Upsert, [APipeline (pipeline ''bucket'' ''role'' ''image'' ''s3://bucket/eval''),
                 AStr ''role''])"
    by (simp add: quiet_log_values)
  from t have c: "conditions (step_cond ''bucket'' ''role'' ''image'' ''s3://bucket/eval'') =
       [cond_register ''bucket'' ''role'' ''image'']"
    and s: "step_cond ''bucket'' ''role'' ''image'' ''s3://bucket/eval''
       \<in> set (steps (pipeline ''bucket'' ''role'' ''image'' ''s3://bucket/eval''))"
    by blast+
  from run_all_ok l u c s show ?thesis by (intro conjI)
qed

text \<open>
  Claim C2, as stated: the definition has exactly four steps and defines no other.
  The definition holds five step objects: the four of the pipeline's list and the
  register-model step \<^verbatim>\<open>CustomerChurnRegisterModel\<close> in the if-branch of the
  condition step.
\<close>
theorem pipeline_steps_counterexample:
  "length (defined_steps (steps (pipeline ''b'' ''r'' ''i'' ''e''))) = 5
   \<and> (Registration, ''CustomerChurnRegisterModel'')
       \<in> set (map (\<lambda>s. (kind_of s, step_name s))
                (defined_steps (steps (pipeline ''b'' ''r'' ''i'' ''e''))))"
  by (simp add: notebook_objects)

text \<open>
  Claim C2, amended. The pipeline's list of steps has exactly four members, in this
  order: the processing step \<^verbatim>\<open>CustomerChurnProcess\<close>, the training step
  \<^verbatim>\<open>CustomerChurnTrain\<close>, the evaluation step \<^verbatim>\<open>CustomerChurnEval\<close> (a processing
  step) and the condition step \<^verbatim>\<open>CustomerChurnAccuracyCond\<close>. One more step is
  defined: the register-model step \<^verbatim>\<open>CustomerChurnRegisterModel\<close>, which is not in
  the list but is the only step of the if-branch of the condition step, whose
  else-branch is empty. No other step is defined.
\<close>
theorem pipeline_steps:
  "map (\<lambda>s. (kind_of s, step_name s)) (steps (pipeline bucket role image_uri eval_uri)) =
     [(Processing, ''CustomerChurnProcess''),
      (Training, ''CustomerChurnTrain''),
      (Processing, ''CustomerChurnEval''),
      (Condition, ''CustomerChurnAccuracyCond'')]
   \<and> map (\<lambda>s. (kind_of s, step_name s))
       (defined_steps (steps (pipeline bucket role image_uri eval_uri))) =
     [(Processing, ''CustomerChurnProcess''),
      (Training, ''CustomerChurnTrain''),
      (Processing, ''CustomerChurnEval''),
      (Condition, ''CustomerChurnAccuracyCond''),
      (Registration, ''CustomerChurnRegisterModel'')]
   \<and> defined_steps (steps (pipeline bucket role image_uri eval_uri)) =
       steps (pipeline bucket role image_uri eval_uri)
       @ if_steps (step_cond bucket role image_uri eval_uri)
   \<and> if_steps (step_cond bucket role image_uri eval_uri) =
       [step_register bucket role image_uri eval_uri]
   \<and> else_steps (step_cond bucket role image_uri eval_uri) = []"
  by (simp add: notebook_objects)

text \<open>
  Claim C3. Each parameter of the pipeline has a name, a type and a default value, and
  the pipeline has exactly these six: \<^verbatim>\<open>ProcessingInstanceCount\<close> (integer, 1),
  \<^verbatim>\<open>ProcessingInstanceType\<close> (string, \<^verbatim>\<open>ml.m5.xlarge\<close>), \<^verbatim>\<open>InputDataUrl\<close> (string,
  the S3 URI of the uploaded raw data), \<^verbatim>\<open>TrainingInstanceType\<close> (string,
  \<^verbatim>\<open>ml.m5.xlarge\<close>), \<^verbatim>\<open>TrainingMaxDepth\<close> (string, \<^verbatim>\<open>5\<close>) and
  \<^verbatim>\<open>ModelApprovalStatus\<close> (string, \<^verbatim>\<open>PendingManualApproval\<close>).
\<close>

theorem pipeline_parameters:
  "set (map (\<lambda>p. (parameter_name p, parameter_type p, default_value p))
          (parameters (pipeline bucket role image_uri eval_uri))) =
     {(''ProcessingInstanceCount'', TInteger, Some (PInteger 1)),
      (''ProcessingInstanceType'', TString, Some (PString ''ml.m5.xlarge'')),
      (''InputDataUrl'', TString, Some (PString (raw_data_s3uri bucket))),
      (''TrainingInstanceType'', TString, Some (PString ''ml.m5.xlarge'')),
      (''TrainingMaxDepth'', TString, Some (PString ''5'')),
      (''ModelApprovalStatus'', TString, Some (PString ''PendingManualApproval''))}
   \<and> length (parameters (pipeline bucket role image_uri eval_uri)) = 6
   \<and> raw_data_s3uri bucket =
       ''s3://'' @ bucket @ ''/sagemaker/DEMO-pipelines-churn/data/RawData.csv''"
  by (auto simp add: pipeline_def notebook_parameters raw_data_s3uri_def raw_data_key_def
      prefix_def)

text \<open>
  Claim C9. Of the pipeline's steps only the preprocessing step has a cache
  configuration: caching enabled, expiring after \<^verbatim>\<open>T2H\<close>. The training step, the
  evaluation step and the condition step have none.
\<close>

theorem caching:
  "map step_cache_config (steps (pipeline bucket role image_uri eval_uri)) =
     [Some \<lparr> enable_caching = True, expire_after = Some ''T2H'' \<rparr>, None, None, None]"
  by (simp add: notebook_objects)

section \<open>Properties of an execution\<close>

subsection \<open>Parameters\<close>

lemma fold_override_other:
  "n \<notin> set (map fst ov) \<Longrightarrow> fold (\<lambda>(n, v) m. m(n \<mapsto> v)) ov m n = m n"
  by (induction ov arbitrary: m) auto

lemma fold_override_named:
  "distinct (map fst ov) \<Longrightarrow> (n, v) \<in> set ov \<Longrightarrow> fold (\<lambda>(n, v) m. m(n \<mapsto> v)) ov m n = Some v"
proof (induction ov arbitrary: m)
  case Nil
  then show ?case by simp
next
  case (Cons a ov)
  show ?case
  proof (cases "a = (n, v)")
    case True
    with Cons.prems(1) have other: "n \<notin> set (map fst ov)" by auto
    have "fold (\<lambda>(n, v) m. m(n \<mapsto> v)) (a # ov) m n =
        fold (\<lambda>(n, v) m. m(n \<mapsto> v)) ov (m(n \<mapsto> v)) n"
      unfolding True by (simp only: fold_simps comp_apply case_prod_conv)
    also from other have "\<dots> = (m(n \<mapsto> v)) n"
      by (rule fold_override_other)
    also have "\<dots> = Some v" by simp
    finally show ?thesis .
  next
    case False
    with Cons.prems have "distinct (map fst ov)" "(n, v) \<in> set ov" by auto
    then show ?thesis using Cons.IH by simp
  qed
qed

lemma pipeline_defaults:
  "defaults (parameters (pipeline bucket role image_uri eval_uri)) =
     [''InputDataUrl'' \<mapsto> PString (raw_data_s3uri bucket),
      ''ModelApprovalStatus'' \<mapsto> PString ''PendingManualApproval'',
      ''TrainingInstanceType'' \<mapsto> PString ''ml.m5.xlarge'',
      ''TrainingMaxDepth'' \<mapsto> PString ''5'',
      ''ProcessingInstanceCount'' \<mapsto> PInteger 1,
      ''ProcessingInstanceType'' \<mapsto> PString ''ml.m5.xlarge'']"
  by (simp add: pipeline_def notebook_parameters)

lemma pipeline_parameter_names:
  "map parameter_name (parameters (pipeline bucket role image_uri eval_uri)) =
     [''ProcessingInstanceType'', ''ProcessingInstanceCount'', ''TrainingMaxDepth'',
      ''TrainingInstanceType'', ''ModelApprovalStatus'', ''InputDataUrl'']"
  by (simp add: pipeline_def notebook_parameters)

lemma second_start_execution:
  "execution_parameters (parameters (pipeline bucket role image_uri eval_uri))
      second_start_parameters =
     Some ((defaults (parameters (pipeline bucket role image_uri eval_uri)))
       (''ProcessingInstanceType'' \<mapsto> PString ''ml.c5.xlarge'',
        ''ModelApprovalStatus'' \<mapsto> PString ''Approved'',
        ''TrainingMaxDepth'' \<mapsto> PString ''6''))"
  by (simp add: execution_parameters_def pipeline_parameter_names second_start_parameters_def)

text \<open>
  Claim C7. In an execution started with a dictionary, a parameter that the dictionary
  does not name has its default, and a named one has the dictionary's value; the
  dictionary names parameters of the pipeline only. The notebook's second
  \<^verbatim>\<open>start\<close> call passes the dictionary that names \<^verbatim>\<open>ProcessingInstanceType\<close>,
  \<^verbatim>\<open>ModelApprovalStatus\<close> and \<^verbatim>\<open>TrainingMaxDepth\<close>: these three change, and
  \<^verbatim>\<open>ProcessingInstanceCount\<close>, \<^verbatim>\<open>TrainingInstanceType\<close> and \<^verbatim>\<open>InputDataUrl\<close> keep
  their defaults. (Each triple below: name, value in the execution, default.)
\<close>
theorem start_overrides:
  "(execution_parameters ps ov = Some m \<longrightarrow>
      (\<forall>n. n \<notin> set (map fst ov) \<longrightarrow> m n = defaults ps n)
    \<and> (\<forall>n v. distinct (map fst ov) \<and> (n, v) \<in> set ov \<longrightarrow> m n = Some v)
    \<and> list_all (\<lambda>n. n \<in> set (map parameter_name ps)) (map fst ov))
   \<and> map fst second_start_parameters =
       [''ProcessingInstanceType'', ''ModelApprovalStatus'', ''TrainingMaxDepth'']
   \<and> map_option
        (\<lambda>m. map (\<lambda>q. (parameter_name q, m (parameter_name q), default_value q))
           (parameters (pipeline bucket role image_uri eval_uri)))
        (execution_parameters (parameters (pipeline bucket role image_uri eval_uri))
           second_start_parameters) =
       Some
        [(''ProcessingInstanceType'',
            Some (PString ''ml.c5.xlarge''), Some (PString ''ml.m5.xlarge'')),
         (''ProcessingInstanceCount'', Some (PInteger 1), Some (PInteger 1)),
         (''TrainingMaxDepth'', Some (PString ''6''), Some (PString ''5'')),
         (''TrainingInstanceType'',
            Some (PString ''ml.m5.xlarge''), Some (PString ''ml.m5.xlarge'')),
         (''ModelApprovalStatus'',
            Some (PString ''Approved''), Some (PString ''PendingManualApproval'')),
         (''InputDataUrl'',
            Some (PString (raw_data_s3uri bucket)), Some (PString (raw_data_s3uri bucket)))]
   \<and> (notebook (logged cl) (w, []) = (res, (w', tr)) \<longrightarrow>
        (res = Inr () \<longrightarrow> 14 < length tr)
      \<and> (14 < length tr \<longrightarrow>
           fst (tr ! 14) = (Start, [APipeline (built tr), AParameters second_start_parameters]))
      \<and> parameters (built tr) =
           parameters (pipeline (returned tr 2) (returned tr 3) (returned tr 7) (returned tr 8)))"
proof (intro conjI impI allI)
  assume e: "execution_parameters ps ov = Some m"
  then have m: "m = fold (\<lambda>(n, v) m. m(n \<mapsto> v)) ov (defaults ps)"
    and k: "list_all (\<lambda>n. n \<in> set (map parameter_name ps)) (map fst ov)"
    by (simp_all add: execution_parameters_def split: if_splits)
  show "list_all (\<lambda>n. n \<in> set (map parameter_name ps)) (map fst ov)" by (rule k)
  show "m n = defaults ps n" if "n \<notin> set (map fst ov)" for n
    using that by (simp add: m fold_override_other)
  show "m n = Some v" if "distinct (map fst ov) \<and> (n, v) \<in> set ov" for n v
    using that by (simp add: m fold_override_named)
next
  show "map fst second_start_parameters =
       [''ProcessingInstanceType'', ''ModelApprovalStatus'', ''TrainingMaxDepth'']"
    by (simp add: second_start_parameters_def)
next
  show "map_option
        (\<lambda>m. map (\<lambda>q. (parameter_name q, m (parameter_name q), default_value q))
           (parameters (pipeline bucket role image_uri eval_uri)))
        (execution_parameters (parameters (pipeline bucket role image_uri eval_uri))
           second_start_parameters) =
       Some
        [(''ProcessingInstanceType'',
            Some (PString ''ml.c5.xlarge''), Some (PString ''ml.m5.xlarge'')),
         (''ProcessingInstanceCount'', Some (PInteger 1), Some (PInteger 1)),
         (''TrainingMaxDepth'', Some (PString ''6''), Some (PString ''5'')),
         (''TrainingInstanceType'',
            Some (PString ''ml.m5.xlarge''), Some (PString ''ml.m5.xlarge'')),
         (''ModelApprovalStatus'',
            Some (PString ''Approved''), Some (PString ''PendingManualApproval'')),
         (''InputDataUrl'',
            Some (PString (raw_data_s3uri bucket)), Some (PString (raw_data_s3uri bucket)))]"
    unfolding second_start_execution pipeline_defaults
    by (simp add: pipeline_def notebook_parameters)
next
  assume run: "notebook (logged cl) (w, []) = (res, (w', tr))"
  show "14 < length tr" if "res = Inr ()" using run_starts(1) [OF run] that by simp
  show "fst (tr ! 14) = (Start, [APipeline (built tr), AParameters second_start_parameters])"
    if "14 < length tr" using run_starts(4) [OF run] that by simp
  show "parameters (built tr) =
      parameters (pipeline (returned tr 2) (returned tr 3) (returned tr 7) (returned tr 8))"
    by (simp add: built_def)
qed

theorem start_overrides_witness:
  "(\<exists>m. execution_parameters (parameters (pipeline ''bucket'' ''role'' ''image'' ''s3://bucket/eval''))
          second_start_parameters = Some m
      \<and> ''TrainingInstanceType'' \<notin> set (map fst second_start_parameters)
      \<and> m ''TrainingInstanceType'' = Some (PString ''ml.m5.xlarge'')
      \<and> distinct (map fst second_start_parameters)
      \<and> (''TrainingMaxDepth'', PString ''6'') \<in> set second_start_parameters
      \<and> m ''TrainingMaxDepth'' = Some (PString ''6''))
   \<and> notebook (logged (test_client [])) (0, []) = (Inr (), (16, quiet_log))
   \<and> fst (quiet_log ! 14) =
       (Start, [APipeline (pipeline ''bucket'' ''role'' ''image'' ''s3://bucket/eval''),
                AParameters second_start_parameters])"
proof -
  let ?ps = "parameters (pipeline ''bucket'' ''role'' ''image'' ''s3://bucket/eval'')"
  obtain m where e: "execution_parameters ?ps second_start_parameters = Some m"
    using second_start_execution by blast
  note t = start_overrides [of ?ps second_start_parameters m "''bucket''" "''role''" "''image''"
      "''s3://bucket/eval''" "test_client []" 0 "Inr ()" 16 quiet_log]
  note frame = t [THEN conjunct1, THEN mp, OF e]
  note script = t [THEN conjunct2, THEN conjunct2, THEN conjunct2, THEN mp, OF run_all_ok]
  have a: "''TrainingInstanceType'' \<notin> set (map fst second_start_parameters)"
    and d: "distinct (map fst second_start_parameters)"
    and i: "(''TrainingMaxDepth'', PString ''6'') \<in> set second_start_parameters"
    by (simp_all add: second_start_parameters_def)
  from frame [THEN conjunct1, rule_format, OF a]
  have v: "m ''TrainingInstanceType'' = Some (PString ''ml.m5.xlarge'')"
    by (simp add: pipeline_defaults)
  from d i have "distinct (map fst second_start_parameters)
      \<and> (''TrainingMaxDepth'', PString ''6'') \<in> set second_start_parameters" ..
  from frame [THEN conjunct2, THEN conjunct1, rule_format, OF this]
  have n: "m ''TrainingMaxDepth'' = Some (PString ''6'')" .
  have "14 < length quiet_log" by (simp add: quiet_log_values)
  from script [THEN conjunct2, THEN conjunct1, THEN mp, OF this]
  have s: "fst (quiet_log ! 14) =
       (Start, [APipeline (pipeline ''bucket'' ''role'' ''image'' ''s3://bucket/eval''),
                AParameters second_start_parameters])"
    by (simp add: quiet_log_values)
  from e a v d i n run_all_ok s show ?thesis
    by (intro conjI exI [of _ m])
qed

subsection \<open>Order of the steps\<close>

lemma allowed_before:
  "allowed deps earlier sched \<Longrightarrow> b \<in> set sched \<Longrightarrow> a \<in> set (deps b) \<Longrightarrow> a \<notin> set earlier
   \<Longrightarrow> before a b sched"
proof (induction sched arbitrary: earlier)
  case Nil
  then show ?case by simp
next
  case (Cons n ns)
  show ?case
  proof (cases "n = b")
    case True
    with Cons.prems show ?thesis by (auto simp: list_all_iff)
  next
    case False
    show ?thesis
    proof (cases "n = a")
      case True
      with \<open>n \<noteq> b\<close> show ?thesis by (simp add: before_def)
    next
      case na: False
      from Cons.prems False have "allowed deps (n # earlier) ns" "b \<in> set ns" by auto
      moreover from Cons.prems na have "a \<notin> set (n # earlier)" by auto
      ultimately have "before a b ns" using Cons.IH Cons.prems(3) by blast
      with False show ?thesis by (simp add: before_def)
    qed
  qed
qed

lemma pipeline_deps:
  "deps_of (pipeline bucket role image_uri eval_uri) ''CustomerChurnProcess'' = []"
  "deps_of (pipeline bucket role image_uri eval_uri) ''CustomerChurnTrain'' =
     [''CustomerChurnProcess'', ''CustomerChurnProcess'']"
  "deps_of (pipeline bucket role image_uri eval_uri) ''CustomerChurnEval'' =
     [''CustomerChurnTrain'', ''CustomerChurnProcess'']"
  "deps_of (pipeline bucket role image_uri eval_uri) ''CustomerChurnAccuracyCond'' =
     [''CustomerChurnEval'']"
  by (simp_all add: deps_of_def notebook_objects estimator_refs_def xgb_train_def
      sklearn_processor_def script_eval_def processing_output_s3uri_def s3_model_artifacts_def)

text \<open>
  Claim C8. The \<^verbatim>\<open>train\<close> and \<^verbatim>\<open>validation\<close> inputs of the training step are the
  S3 URIs of the outputs \<^verbatim>\<open>train\<close> and \<^verbatim>\<open>validation\<close> of the processing step
  \<^verbatim>\<open>CustomerChurnProcess\<close>; the inputs of the evaluation step are the model artifacts
  of the training step \<^verbatim>\<open>CustomerChurnTrain\<close> and the S3 URI of the output
  \<^verbatim>\<open>test\<close> of the processing step. So training depends on processing, evaluation on
  training and processing, and the condition step on evaluation. Hence in every
  schedule that starts a step only after the steps it depends on, processing is before
  training, training before evaluation, and evaluation before the condition step.
\<close>
theorem dependency_order:
  "map (\<lambda>(k, i). (k, s3_data i)) (training_inputs (step_train bucket role image_uri)) =
     [(''train'',
        Prop (Properties ''CustomerChurnProcess''
          [''ProcessingOutputConfig'', ''Outputs'', ''train'', ''S3Output'', ''S3Uri''])),
      (''validation'',
        Prop (Properties ''CustomerChurnProcess''
          [''ProcessingOutputConfig'', ''Outputs'', ''validation'', ''S3Output'', ''S3Uri'']))]
   \<and> map pi_source (processing_inputs (step_eval bucket role image_uri)) =
     [Prop (Properties ''CustomerChurnTrain'' [''ModelArtifacts'', ''S3ModelArtifacts'']),
      Prop (Properties ''CustomerChurnProcess''
        [''ProcessingOutputConfig'', ''Outputs'', ''test'', ''S3Output'', ''S3Uri''])]
   \<and> step_name (step_process bucket role) = ''CustomerChurnProcess''
   \<and> map output_name (processing_outputs (step_process bucket role)) =
     [''train'', ''validation'', ''test'']
   \<and> step_name (step_train bucket role image_uri) = ''CustomerChurnTrain''
   \<and> map (\<lambda>s. (step_name s, depends_on s)) (steps (pipeline bucket role image_uri eval_uri)) =
     [(''CustomerChurnProcess'', []),
      (''CustomerChurnTrain'', [''CustomerChurnProcess'', ''CustomerChurnProcess'']),
      (''CustomerChurnEval'', [''CustomerChurnTrain'', ''CustomerChurnProcess'']),
      (''CustomerChurnAccuracyCond'', [''CustomerChurnEval''])]
   \<and> (allowed (deps_of (pipeline bucket role image_uri eval_uri)) [] sched \<longrightarrow>
        (''CustomerChurnTrain'' \<in> set sched \<longrightarrow>
           before ''CustomerChurnProcess'' ''CustomerChurnTrain'' sched)
      \<and> (''CustomerChurnEval'' \<in> set sched \<longrightarrow>
           before ''CustomerChurnTrain'' ''CustomerChurnEval'' sched)
      \<and> (''CustomerChurnAccuracyCond'' \<in> set sched \<longrightarrow>
           before ''CustomerChurnEval'' ''CustomerChurnAccuracyCond'' sched))"
proof -
  have objs:
    "map (\<lambda>(k, i). (k, s3_data i)) (training_inputs (step_train bucket role image_uri)) =
     [(''train'',
        Prop (Properties ''CustomerChurnProcess''
          [''ProcessingOutputConfig'', ''Outputs'', ''train'', ''S3Output'', ''S3Uri''])),
      (''validation'',
        Prop (Properties ''CustomerChurnProcess''
          [''ProcessingOutputConfig'', ''Outputs'', ''validation'', ''S3Output'', ''S3Uri'']))]"
    "map pi_source (processing_inputs (step_eval bucket role image_uri)) =
     [Prop (Properties ''CustomerChurnTrain'' [''ModelArtifacts'', ''S3ModelArtifacts'']),
      Prop (Properties ''CustomerChurnProcess''
        [''ProcessingOutputConfig'', ''Outputs'', ''test'', ''S3Output'', ''S3Uri''])]"
    "step_name (step_process bucket role) = ''CustomerChurnProcess''"
    "map output_name (processing_outputs (step_process bucket role)) =
     [''train'', ''validation'', ''test'']"
    "step_name (step_train bucket role image_uri) = ''CustomerChurnTrain''"
    by (simp_all add: step_train_def step_eval_def step_process_def
        processing_output_s3uri_def s3_model_artifacts_def)
  have deps:
    "map (\<lambda>s. (step_name s, depends_on s)) (steps (pipeline bucket role image_uri eval_uri)) =
     [(''CustomerChurnProcess'', []),
      (''CustomerChurnTrain'', [''CustomerChurnProcess'', ''CustomerChurnProcess'']),
      (''CustomerChurnEval'', [''CustomerChurnTrain'', ''CustomerChurnProcess'']),
      (''CustomerChurnAccuracyCond'', [''CustomerChurnEval''])]"
    by (simp add: notebook_objects estimator_refs_def xgb_train_def
      sklearn_processor_def script_eval_def processing_output_s3uri_def s3_model_artifacts_def)
  have ord: "before a b sched"
    if "allowed (deps_of (pipeline bucket role image_uri eval_uri)) [] sched"
      and "b \<in> set sched"
      and "a \<in> set (deps_of (pipeline bucket role image_uri eval_uri) b)" for a b
    using allowed_before [OF that(1) that(2) that(3)] by simp
  show ?thesis
    using objs deps by (auto intro!: ord simp: pipeline_deps)
qed

theorem dependency_order_witness:
  "allowed (deps_of (pipeline ''b'' ''r'' ''i'' ''e'')) []
     [''CustomerChurnProcess'', ''CustomerChurnTrain'', ''CustomerChurnEval'',
      ''CustomerChurnAccuracyCond'']
   \<and> before ''CustomerChurnProcess'' ''CustomerChurnTrain''
       [''CustomerChurnProcess'', ''CustomerChurnTrain'', ''CustomerChurnEval'',
        ''CustomerChurnAccuracyCond'']
   \<and> before ''CustomerChurnTrain'' ''CustomerChurnEval''
       [''CustomerChurnProcess'', ''CustomerChurnTrain'', ''CustomerChurnEval'',
        ''CustomerChurnAccuracyCond'']
   \<and> before ''CustomerChurnEval'' ''CustomerChurnAccuracyCond''
       [''CustomerChurnProcess'', ''CustomerChurnTrain'', ''CustomerChurnEval'',
        ''CustomerChurnAccuracyCond'']"
proof -
  have a: "allowed (deps_of (pipeline ''b'' ''r'' ''i'' ''e'')) []
     [''CustomerChurnProcess'', ''CustomerChurnTrain'', ''CustomerChurnEval'',
      ''CustomerChurnAccuracyCond'']"
    by (simp add: pipeline_deps)
  from dependency_order [of "''b''" "''r''" "''i''" "''e''"
      "[''CustomerChurnProcess'', ''CustomerChurnTrain'', ''CustomerChurnEval'',
        ''CustomerChurnAccuracyCond'']"] a
  show ?thesis by simp
qed

subsection \<open>The approval status of a registered model\<close>

text \<open>
  Claim C10. The only step of the condition step's if-branch, the register-model
  step, takes its approval status from the parameter \<^verbatim>\<open>ModelApprovalStatus\<close>,
  whose default is \<^verbatim>\<open>PendingManualApproval\<close>. In an execution whose \<^verbatim>\<open>start\<close>
  dictionary does not name that parameter, as in the notebook's first \<^verbatim>\<open>start\<close>
  call, the approval status of the registration is \<^verbatim>\<open>PendingManualApproval\<close>. The
  dictionary of the notebook's second \<^verbatim>\<open>start\<close> call sets it to \<^verbatim>\<open>Approved\<close>.
\<close>
theorem approval_status_default:
  "map approval_status_of (if_steps (step_cond bucket role image_uri eval_uri)) =
     [Some (Param (ParameterString ''ModelApprovalStatus'' (Some ''PendingManualApproval'')))]
   \<and> (execution_parameters (parameters (pipeline bucket role image_uri eval_uri)) ov = Some m
        \<and> ''ModelApprovalStatus'' \<notin> set (map fst ov) \<longrightarrow>
      map (\<lambda>s. Option.bind (approval_status_of s) (argument_value m))
          (if_steps (step_cond bucket role image_uri eval_uri)) =
        [Some (PString ''PendingManualApproval'')])
   \<and> ''ModelApprovalStatus'' \<notin> set (map fst first_start_parameters)
   \<and> map_option
        (\<lambda>m. map (\<lambda>s. Option.bind (approval_status_of s) (argument_value m))
           (if_steps (step_cond bucket role image_uri eval_uri)))
        (execution_parameters (parameters (pipeline bucket role image_uri eval_uri))
           second_start_parameters) =
       Some [Some (PString ''Approved'')]
   \<and> (notebook (logged cl) (w, []) = (res, (w', tr)) \<longrightarrow>
        (res = Inr () \<longrightarrow> 14 < length tr)
      \<and> (10 < length tr \<longrightarrow>
           fst (tr ! 10) = (Start, [APipeline (built tr), AParameters first_start_parameters]))
      \<and> (14 < length tr \<longrightarrow>
           fst (tr ! 14) = (Start, [APipeline (built tr), AParameters second_start_parameters])))"
proof (intro conjI impI)
  show w: "map approval_status_of (if_steps (step_cond bucket role image_uri eval_uri)) =
     [Some (Param (ParameterString ''ModelApprovalStatus'' (Some ''PendingManualApproval'')))]"
    by (simp add: step_cond_def step_register_def model_approval_status_def)
  show "''ModelApprovalStatus'' \<notin> set (map fst first_start_parameters)"
    by (simp add: first_start_parameters_def)
  show "map_option
        (\<lambda>m. map (\<lambda>s. Option.bind (approval_status_of s) (argument_value m))
           (if_steps (step_cond bucket role image_uri eval_uri)))
        (execution_parameters (parameters (pipeline bucket role image_uri eval_uri))
           second_start_parameters) =
       Some [Some (PString ''Approved'')]"
    unfolding second_start_execution
    by (simp add: step_cond_def step_register_def model_approval_status_def)
next
  assume "execution_parameters (parameters (pipeline bucket role image_uri eval_uri)) ov = Some m
        \<and> ''ModelApprovalStatus'' \<notin> set (map fst ov)"
  then have "m = fold (\<lambda>(n, v) m. m(n \<mapsto> v)) ov
        (defaults (parameters (pipeline bucket role image_uri eval_uri)))"
    and "''ModelApprovalStatus'' \<notin> set (map fst ov)"
    by (simp_all add: execution_parameters_def split: if_splits)
  then have "m ''ModelApprovalStatus'' = Some (PString ''PendingManualApproval'')"
    by (simp add: fold_override_other pipeline_defaults)
  then show "map (\<lambda>s. Option.bind (approval_status_of s) (argument_value m))
          (if_steps (step_cond bucket role image_uri eval_uri)) =
        [Some (PString ''PendingManualApproval'')]"
    by (simp add: step_cond_def step_register_def model_approval_status_def)
next
  assume run: "notebook (logged cl) (w, []) = (res, (w', tr))"
  show "14 < length tr" if "res = Inr ()" using run_starts(1) [OF run] that by simp
  show "fst (tr ! 10) = (Start, [APipeline (built tr), AParameters first_start_parameters])"
    if "10 < length tr" using run_starts(3) [OF run] that by simp
  show "fst (tr ! 14) = (Start, [APipeline (built tr), AParameters second_start_parameters])"
    if "14 < length tr" using run_starts(4) [OF run] that by simp
qed

theorem approval_status_default_witness:
  "(\<exists>m. execution_parameters (parameters (pipeline ''bucket'' ''role'' ''image'' ''s3://bucket/eval''))
          first_start_parameters = Some m
      \<and> ''ModelApprovalStatus'' \<notin> set (map fst first_start_parameters)
      \<and> map (\<lambda>s. Option.bind (approval_status_of s) (argument_value m))
          (if_steps (step_cond ''bucket'' ''role'' ''image'' ''s3://bucket/eval'')) =
        [Some (PString ''PendingManualApproval'')])
   \<and> notebook (logged (test_client [])) (0, []) = (Inr (), (16, quiet_log))
   \<and> fst (quiet_log ! 10) =
       (Start, [APipeline (pipeline ''bucket'' ''role'' ''image'' ''s3://bucket/eval''),
                AParameters first_start_parameters])"
proof -
  let ?ps = "parameters (pipeline ''bucket'' ''role'' ''image'' ''s3://bucket/eval'')"
  have "execution_parameters ?ps first_start_parameters = Some (defaults ?ps)"
    by (simp add: execution_parameters_def first_start_parameters_def)
  then obtain m where e: "execution_parameters ?ps first_start_parameters = Some m" ..
  note t = approval_status_default [of "''bucket''" "''role''" "''image''" "''s3://bucket/eval''"
      first_start_parameters m "test_client []" 0 "Inr ()" 16 quiet_log]
  note a = t [THEN conjunct2, THEN conjunct2, THEN conjunct1]
  from e a have "execution_parameters ?ps first_start_parameters = Some m
      \<and> ''ModelApprovalStatus'' \<notin> set (map fst first_start_parameters)" ..
  note v = t [THEN conjunct2, THEN conjunct1, THEN mp, OF this]
  note script = t [THEN conjunct2, THEN conjunct2, THEN conjunct2, THEN conjunct2, THEN mp,
      OF run_all_ok]
  have "10 < length quiet_log" by (simp add: quiet_log_values)
  from script [THEN conjunct2, THEN conjunct1, THEN mp, OF this]
  have s: "fst (quiet_log ! 10) =
       (Start, [APipeline (pipeline ''bucket'' ''role'' ''image'' ''s3://bucket/eval''),
                AParameters first_start_parameters])"
    by (simp add: quiet_log_values)
  from e a v run_all_ok s show ?thesis
    by (intro conjI exI [of _ m])
qed

section \<open>Properties of the runs\<close>

text \<open>
  Claim C5. The notebook handles no exception. In every run, with any client, a call
  that raised is the last call the client received (nothing is retried and nothing
  follows), and the exception it raised is the result of the run, unchanged; a run
  fails only with the exception of its last call. This holds for every call of the
  script, so for the upload, \<^verbatim>\<open>upsert\<close>, \<^verbatim>\<open>start\<close>, \<^verbatim>\<open>describe\<close>, \<^verbatim>\<open>wait\<close>
  and \<^verbatim>\<open>list_steps\<close>. The log changes nothing: the run with the client itself
  has the same result.
\<close>
theorem exceptions_propagate:
  assumes "notebook (logged cl) (w, []) = (res, (w', tr))"
  shows "notebook cl w = (res, w')
       \<and> (\<forall>c e. (c, Inl e) \<in> set tr \<longrightarrow> res = Inl e \<and> last tr = (c, Inl e))
       \<and> (\<forall>e. res = Inl e \<longrightarrow> tr \<noteq> [] \<and> snd (last tr) = Inl e)"
proof (intro conjI allI impI)
  note run = notebook_run [OF assms]
  show "notebook cl w = (res, w')" by (rule notebook_unlogged [OF assms])
  {
    fix c e
    assume raised: "(c, Inl e) \<in> set tr"
    have "set tr = set (butlast tr @ [last tr])"
      using append_butlast_last_id [OF run(1)] by simp
    then have "set tr = insert (last tr) (set (butlast tr))" by simp
    moreover from run(4) have "(c, Inl e) \<notin> set (butlast tr)"
      by (auto simp: list_all_iff)
    ultimately have l: "last tr = (c, Inl e)" using raised by auto
    show "last tr = (c, Inl e)" by (rule l)
    from run(5) l show "res = Inl e" by (cases res) simp_all
  }
  {
    fix e
    assume "res = Inl e"
    with run(5) show "snd (last tr) = Inl e" by simp
    show "tr \<noteq> []" by (rule run(1))
  }
qed

theorem exceptions_propagate_witness:
  "notebook (logged (test_client [Upsert])) (0, []) = (Inl Upsert, (10, upsert_raised_log))
   \<and> ((Upsert, [APipeline (pipeline ''bucket'' ''role'' ''image'' ''s3://bucket/eval''),
                 AStr ''role'']), Inl Upsert) \<in> set upsert_raised_log
   \<and> last upsert_raised_log =
       ((Upsert, [APipeline (pipeline ''bucket'' ''role'' ''image'' ''s3://bucket/eval''),
                  AStr ''role'']), Inl Upsert)
   \<and> notebook (test_client [Upsert]) 0 = (Inl Upsert, 10)"
proof -
  note t = exceptions_propagate [OF run_upsert_raises]
  have m: "((Upsert, [APipeline (pipeline ''bucket'' ''role'' ''image'' ''s3://bucket/eval''),
                 AStr ''role'']), Inl Upsert) \<in> set upsert_raised_log"
    by (simp add: upsert_raised_log_def)
  from t [THEN conjunct2, THEN conjunct1, rule_format, OF m]
  have l: "last upsert_raised_log =
       ((Upsert, [APipeline (pipeline ''bucket'' ''role'' ''image'' ''s3://bucket/eval''),
                  AStr ''role'']), Inl Upsert)"
    by (rule conjunct2)
  from run_upsert_raises m l t [THEN conjunct1] show ?thesis by (intro conjI)
qed

text \<open>
  Claim C6. The calls that the client receives in a run are an initial part of the
  script's sequence, in which \<^verbatim>\<open>upsert\<close> comes first and then \<^verbatim>\<open>start\<close>,
  \<^verbatim>\<open>describe\<close>, \<^verbatim>\<open>wait\<close>, \<^verbatim>\<open>list_steps\<close> (and then the second \<^verbatim>\<open>start\<close>
  and \<^verbatim>\<open>wait\<close>); a run in which nothing raises makes all sixteen calls. Whenever
  a run makes a \<^verbatim>\<open>start\<close> call, an \<^verbatim>\<open>upsert\<close> call that raised nothing was made
  before it, with the very pipeline that is started.
\<close>
theorem upsert_before_start:
  assumes "notebook (logged cl) (w, []) = (res, (w', tr))"
  shows "map fst tr = take (length tr) (calls_of tr)
       \<and> map fst (calls_of tr) =
           [Session, S3Resource, DefaultBucket, GetExecutionRole, Shell, UploadFile, RegionName,
            ImageUrisRetrieve, StepArguments, Upsert, Start, Describe, Wait, ListSteps, Start,
            Wait]
       \<and> (res = Inr () \<longrightarrow> length tr = 16)
       \<and> (\<forall>i<length tr. fst (fst (tr ! i)) = Start \<longrightarrow>
            (\<exists>j<i. \<exists>ps v.
               tr ! j = ((Upsert, [APipeline (built tr), AStr (returned tr 3)]), Inr v)
             \<and> snd (fst (tr ! i)) = [APipeline (built tr), AParameters ps]))"
proof -
  note run = notebook_run [OF assms]
  have full: "length tr = 16" if "res = Inr ()"
    using run(5) that by simp
  have started: "\<exists>j<i. \<exists>ps v.
        tr ! j = ((Upsert, [APipeline (built tr), AStr (returned tr 3)]), Inr v)
      \<and> snd (fst (tr ! i)) = [APipeline (built tr), AParameters ps]"
    if i: "i < length tr" and st: "fst (fst (tr ! i)) = Start" for i
  proof -
    from i run(2) have "i < 16" by simp
    with st run_entry [OF assms i] have pos: "i = 10 \<or> i = 14"
      using op_positions(1) [of i tr] by (simp add: length_calls_of)
    with i have "Suc 9 < length tr" by auto
    then obtain v where v: "snd (tr ! 9) = Inr v"
      using run_entry_returned [OF assms] by blast
    from pos i have "fst (tr ! 9) = calls_of tr ! 9"
      using run_entry [OF assms, of 9] by auto
    with v have u: "tr ! 9 = ((Upsert, [APipeline (built tr), AStr (returned tr 3)]), Inr v)"
      by (simp add: calls_of_nth prod_eq_iff)
    from pos run_entry [OF assms i]
    have "\<exists>ps. snd (fst (tr ! i)) = [APipeline (built tr), AParameters ps]"
      by (auto simp: calls_of_nth)
    then obtain ps where ps: "snd (fst (tr ! i)) = [APipeline (built tr), AParameters ps]" ..
    from pos have "9 < i" by auto
    with u ps show ?thesis by blast
  qed
  show ?thesis
  proof (intro conjI)
    show "map fst tr = take (length tr) (calls_of tr)" by (rule run(3))
    show "map fst (calls_of tr) =
           [Session, S3Resource, DefaultBucket, GetExecutionRole, Shell, UploadFile, RegionName,
            ImageUrisRetrieve, StepArguments, Upsert, Start, Describe, Wait, ListSteps, Start,
            Wait]"
      by (rule calls_of_ops)
    show "res = Inr () \<longrightarrow> length tr = 16" using full by blast
    show "\<forall>i<length tr. fst (fst (tr ! i)) = Start \<longrightarrow>
            (\<exists>j<i. \<exists>ps v.
               tr ! j = ((Upsert, [APipeline (built tr), AStr (returned tr 3)]), Inr v)
             \<and> snd (fst (tr ! i)) = [APipeline (built tr), AParameters ps])"
      using started by blast
  qed
qed

theorem upsert_before_start_witness:
  "notebook (logged (test_client [])) (0, []) = (Inr (), (16, quiet_log))
   \<and> length quiet_log = 16
   \<and> fst (fst (quiet_log ! 10)) = Start
   \<and> (\<exists>j<10. \<exists>ps v.
         quiet_log ! j =
           ((Upsert, [APipeline (built quiet_log), AStr (returned quiet_log 3)]), Inr v)
       \<and> snd (fst (quiet_log ! 10)) = [APipeline (built quiet_log), AParameters ps])"
proof -
  note t = upsert_before_start [OF run_all_ok]
  from t have a: "length quiet_log = 16" by (elim conjE) simp
  have b: "fst (fst (quiet_log ! 10)) = Start"
    by (simp add: quiet_log_def script_calls_def)
  from t have "\<forall>i<length quiet_log. fst (fst (quiet_log ! i)) = Start \<longrightarrow>
            (\<exists>j<i. \<exists>ps v.
               quiet_log ! j =
                 ((Upsert, [APipeline (built quiet_log), AStr (returned quiet_log 3)]), Inr v)
             \<and> snd (fst (quiet_log ! i)) = [APipeline (built quiet_log), AParameters ps])"
    by (elim conjE)
  moreover from a have "10 < length quiet_log" by simp
  ultimately have "\<exists>j<10. \<exists>ps v.
         quiet_log ! j =
           ((Upsert, [APipeline (built quiet_log), AStr (returned quiet_log 3)]), Inr v)
       \<and> snd (fst (quiet_log ! 10)) = [APipeline (built quiet_log), AParameters ps]"
    using b by blast
  with run_all_ok a b show ?thesis by (intro conjI)
qed

end
